theory Spec2Isabelle
  imports Main "HOL-Library.Sublist"
begin

section \<open>Text primitives\<close>

text \<open>
  Messages are modelled as \<open>string\<close>, a list of 8-bit characters. The model covers ASCII
  text: the character classes below are Python's \<open>str.isspace\<close>, \<open>str.isdigit\<close> and
  \<open>str.lower\<close> restricted to code points below 128, and a non-ASCII symbol of a response
  text is written as its UTF-8 bytes. Python's \<open>x in s\<close> on strings is \<open>sublist x s\<close>.
\<close>

definition isspace :: "char \<Rightarrow> bool" where
  "isspace c = (c \<in> set [CHR 0x09, CHR 0x0A, CHR 0x0B, CHR 0x0C, CHR 0x0D,
                          CHR 0x1C, CHR 0x1D, CHR 0x1E, CHR 0x1F, CHR 0x20])"

definition isdigit_char :: "char \<Rightarrow> bool" where
  "isdigit_char c = (c \<in> set ''0123456789'')"

text \<open>\<open>s.isdigit()\<close>: every character is a digit and there is at least one.\<close>

definition isdigit :: "string \<Rightarrow> bool" where
  "isdigit s = (s \<noteq> [] \<and> list_all isdigit_char s)"

definition lower_char :: "char \<Rightarrow> char" where
  "lower_char c =
     (case map_of (zip ''ABCDEFGHIJKLMNOPQRSTUVWXYZ'' ''abcdefghijklmnopqrstuvwxyz'') c of
        Some d \<Rightarrow> d
      | None \<Rightarrow> c)"

definition lower :: "string \<Rightarrow> string" where
  "lower s = map lower_char s"

text \<open>\<open>s.strip()\<close>: leading and trailing whitespace removed.\<close>

definition strip :: "string \<Rightarrow> string" where
  "strip s = rev (dropWhile isspace (rev (dropWhile isspace s)))"

text \<open>\<open>s.replace(c, "")\<close> for a one-character \<open>c\<close>: every occurrence removed.\<close>

definition remove_char :: "char \<Rightarrow> string \<Rightarrow> string" where
  "remove_char c s = filter (\<lambda>x. x \<noteq> c) s"

text \<open>\<open>s.zfill(width)\<close>: zeros on the left, after a leading sign if there is one.\<close>

definition zfill :: "nat \<Rightarrow> string \<Rightarrow> string" where
  "zfill width s =
     (let pad = replicate (width - length s) (CHR ''0'') in
      case s of
        [] \<Rightarrow> pad
      | c # cs \<Rightarrow> if c = CHR ''+'' \<or> c = CHR ''-'' then c # pad @ cs else pad @ s)"

text \<open>\<open>s.split(sep)\<close> for a one-character separator; the result is never empty.\<close>

fun split_on :: "char \<Rightarrow> string \<Rightarrow> string list" where
  "split_on sep [] = [[]]"
| "split_on sep (c # cs) =
     (let ps = split_on sep cs in
      if c = sep then [] # ps else (c # hd ps) # tl ps)"

text \<open>\<open>sep.join(xs)\<close>.\<close>

fun join :: "string \<Rightarrow> string list \<Rightarrow> string" where
  "join sep [] = []"
| "join sep [x] = x"
| "join sep (x # y # ys) = x @ sep @ join sep (y # ys)"

text \<open>\<open>xs[-n:]\<close> for a positive \<open>n\<close>: the last \<open>n\<close> entries, all of them if there are fewer.\<close>

definition last_n :: "nat \<Rightarrow> 'a list \<Rightarrow> 'a list" where
  "last_n n xs = drop (length xs - n) xs"

section \<open>Regular expressions of the contact-info detector\<close>

text \<open>
  The two patterns of \<open>is_contact_info\<close> are sequences of character classes, each taken
  once or at least \<open>n\<close> times. \<open>re_match p s\<close> holds when \<open>p\<close> matches a prefix of \<open>s\<close>
  (every split of a repetition is tried, as the backtracking matcher does), and
  \<open>re_search p s\<close> when it matches at some position: \<open>re.search(p, s)\<close> is truthy.
\<close>

datatype re_item = One "char list" | AtLeast nat "char list"

fun re_match :: "re_item list \<Rightarrow> string \<Rightarrow> bool" where
  "re_match [] s = True"
| "re_match (One cls # r) s =
     (case s of [] \<Rightarrow> False | c # s' \<Rightarrow> c \<in> set cls \<and> re_match r s')"
| "re_match (AtLeast n cls # r) s =
     list_ex (\<lambda>k. list_all (\<lambda>c. c \<in> set cls) (take k s) \<and> re_match r (drop k s))
       [n ..< Suc (length s)]"

definition re_search :: "re_item list \<Rightarrow> string \<Rightarrow> bool" where
  "re_search p s = list_ex (\<lambda>i. re_match p (drop i s)) [0 ..< Suc (length s)]"

text \<open>
  The source writes the patterns as raw strings with doubled backslashes:
  \<^verbatim>\<open>r"\\b\\d{10,}\\b"\<close> and \<^verbatim>\<open>r"[\\w\\.-]+@[\\w\\.-]+"\<close>. In a raw string both
  backslashes stay, and the regular expression \<^verbatim>\<open>\\\<close> matches one backslash
  character. So the first pattern is: a backslash, \<open>b\<close>, a backslash, ten or more letters
  \<open>d\<close>, a backslash, \<open>b\<close>; and the class of the second holds the backslash, \<open>w\<close>, the
  period and the hyphen.
\<close>

definition backslash :: char where
  "backslash = CHR 0x5C"

definition phone_pattern :: "re_item list" where
  "phone_pattern =
     [One [backslash], One ''b'', One [backslash], AtLeast 10 ''d'', One [backslash], One ''b'']"

definition email_class :: "char list" where
  "email_class = [backslash, CHR ''w'', backslash, CHR ''.'', CHR ''-'']"

definition email_pattern :: "re_item list" where
  "email_pattern = [AtLeast 1 email_class, One ''@'', AtLeast 1 email_class]"

definition name_keywords :: "string list" where
  "name_keywords = [''name is'', ''i am'', ''i'm'', ''this is'']"

definition is_contact_info :: "string \<Rightarrow> bool" where
  "is_contact_info msg =
     (let msg_lower = lower msg in
      if re_search phone_pattern msg \<or> re_search email_pattern msg then True
      else if list_ex (\<lambda>kw. sublist kw msg_lower) name_keywords then True
      else False)"

section \<open>Time normalizer\<close>

definition normalize_time :: "string \<Rightarrow> string" where
  "normalize_time message =
     (let parsed_time =
            remove_char (CHR ''.'') (remove_char (CHR '' '')
              (remove_char (CHR 0x27) (remove_char (CHR 0x22) (lower (strip message)))))
      in
      if isdigit parsed_time then
        (if length parsed_time \<le> 2 then zfill 2 parsed_time @ '':00''
         else if length parsed_time = 3 then
           ''0'' @ [parsed_time ! 0] @ '':'' @ drop 1 parsed_time
         else if length parsed_time = 4 then
           take 2 parsed_time @ '':'' @ drop 2 parsed_time
         else parsed_time)
      else if CHR '':'' \<in> set parsed_time then
        (let parts = split_on (CHR '':'') parsed_time in
         if length parts = 2 \<and> list_all isdigit parts then
           zfill 2 (parts ! 0) @ '':'' @ zfill 2 (parts ! 1)
         else parsed_time)
      else parsed_time)"

section \<open>Session state and collaborators\<close>

text \<open>
  Modelled from the spec: the enumeration \<open>LeadState\<close> of \<open>lead_state.py\<close>, which is not
  among the sources. Its six members are the ones the spec lists and \<open>process\<close> names.
\<close>

datatype LeadState =
    NO_INTEREST
  | INTEREST_DETECTED
  | COLLECTING_INFO
  | INFO_COMPLETE
  | AWAITING_MEETING_CONFIRMATION
  | WAITING_MEETING_SLOT_SELECTION

text \<open>A raised exception, with the text \<open>str(e)\<close> gives.\<close>

datatype exn = Exception string

fun exn_str :: "exn \<Rightarrow> string" where
  "exn_str (Exception m) = m"

text \<open>
  The attributes of the lead tool and of the meeting tool that \<open>process\<close> reads or
  assigns. A lead id is a string; \<open>None\<close> is the Python \<open>None\<close>.
\<close>

record LeadTool =
  state :: LeadState
  partial_lead_info :: "(string \<times> string) list"
  current_lead_id :: "string option"

record MeetingTool =
  available_slots :: "string list"

text \<open>
  The calls \<open>process\<close> makes to its collaborators, in order. The list \<open>calls\<close> of the
  agent below is not an attribute of the Python object: it records which collaborator
  methods a call of \<open>process\<close> reached, and with which arguments.
\<close>

datatype call =
    UpdateState string
  | LlmInvoke string
  | SqlQuery string
  | PdfAnswer string
  | GetMissingFields
  | CreateLead
  | GetSlots
  | FormatSlots "string list"
  | Schedule string string

record agent =
  lead_tool :: LeadTool
  meeting_tool :: MeetingTool
  conversation_history :: "string list"
  calls :: "call list"

text \<open>
  The collaborators are not among the sources (\<open>lead_tool.py\<close>, \<open>meeting_tool.py\<close>,
  \<open>pdf_qa_tool.py\<close>) or are external services (the language model, the SQL agent
  executor), so they are parameters. Each may raise (\<open>Inl\<close>) or return (\<open>Inr\<close>). A
  method that changes its tool returns the tool as it leaves it; a raising call is taken
  to leave its tool as it was; no collaborator changes the other tool or an argument it
  is given (the history list passed to the document tool).

  \<open>llm_invoke p\<close> is \<open>llm.invoke(p).content\<close>; \<open>agent_executor q\<close> is
  \<open>agent_executor.invoke({"input": q})["output"]\<close>; \<open>state_value\<close> is the \<open>.value\<close>
  label of a \<open>LeadState\<close> member. \<open>fix_area\<close> stands for \<open>SQLAgentTool.fix_area\<close>, which
  rewrites the area name of a question with \<open>difflib\<close>'s floating-point similarity
  ratio: only that it returns a question or raises matters here.
\<close>

record env =
  llm_invoke :: "string \<Rightarrow> exn + string"
  update_state :: "string \<Rightarrow> LeadTool \<Rightarrow> exn + LeadTool"
  get_missing_fields :: "LeadTool \<Rightarrow> exn + string list"
  create_lead :: "LeadTool \<Rightarrow> exn + string option \<times> LeadTool"
  get_slots :: "MeetingTool \<Rightarrow> exn + string list \<times> MeetingTool"
  format_slots :: "string list \<Rightarrow> exn + string"
  schedule :: "string \<Rightarrow> string \<Rightarrow> MeetingTool \<Rightarrow> exn + bool \<times> MeetingTool"
  pdf_answer ::
    "string \<Rightarrow> string list \<Rightarrow> (string \<times> string) list \<Rightarrow> string \<Rightarrow> exn + string"
  fix_area :: "string \<Rightarrow> exn + string"
  agent_executor :: "string \<Rightarrow> exn + string"
  state_value :: "LeadState \<Rightarrow> string"

text \<open>What \<open>process\<close> returns: the dictionary with its three keys.\<close>

record result =
  response :: string
  lead_info :: "(string \<times> string) list option"
  lead_state :: string

text \<open>The truth value of an optional lead id: \<open>None\<close> and the empty string are false.\<close>

fun has_id :: "string option \<Rightarrow> bool" where
  "has_id None = False"
| "has_id (Some i) = (i \<noteq> [])"

definition record_call :: "call \<Rightarrow> agent \<Rightarrow> agent" where
  "record_call c a = a\<lparr>calls := calls a @ [c]\<rparr>"

definition set_state :: "LeadState \<Rightarrow> agent \<Rightarrow> agent" where
  "set_state s a = a\<lparr>lead_tool := (lead_tool a)\<lparr>state := s\<rparr>\<rparr>"

section \<open>SQL agent tool\<close>

definition query :: "env \<Rightarrow> string \<Rightarrow> exn + string" where
  "query env question =
     (case fix_area env question of
        Inl e \<Rightarrow> Inl e
      | Inr clean_question \<Rightarrow>
          (case agent_executor env clean_question of
             Inr output \<Rightarrow> Inr output
           | Inl e \<Rightarrow> Inr (''SQL agent error: '' @ exn_str e)))"

section \<open>Intent classifier\<close>

definition decide_system_prompt :: string where
  "decide_system_prompt =
     ''You are an expert AI assistant. Decide if the user's question is about property/project/unit data (use SQL agent), '' @
     ''or about Emaar properties and its FAQs (use RAG).\<newline>'' @
     ''If the question is about property/unit/project info, price, area, stats, or anything in the database, answer 'sql'.\<newline>'' @
     ''If about Emaar, answer 'rag'.\<newline>'' @
     ''Only answer 'sql' or 'rag'.''"

definition decide_prompt :: "string \<Rightarrow> string" where
  "decide_prompt message =
     decide_system_prompt @ ''\<newline>User: '' @ message @ ''\<newline>Answer:''"

definition decide_tool :: "env \<Rightarrow> string \<Rightarrow> exn + string" where
  "decide_tool env message =
     (case llm_invoke env (decide_prompt message) of
        Inl e \<Rightarrow> Inl e
      | Inr content \<Rightarrow>
          (let decision = lower (strip content) in
           if sublist ''sql'' decision then Inr ''sql'' else Inr ''rag''))"

section \<open>Conversation controller\<close>

definition fallback_system_prompt :: string where
  "fallback_system_prompt =
     ''You are a friendly, conversational sales assistant for Emaar. '' @
     ''If the user greets you or starts with small talk (like 'hi', 'hello', 'how are you', etc.), '' @
     ''respond warmly and conversationally, and guide them to ask about Emmar properties and FAQs about it. '' @
     ''If the user's question is not related to Emaar properties, politely respond: 'Sorry, I can only answer questions related to FSTC pilot training, meetings, or our services. Please ask something related.' '' @
     ''Never answer general knowledge or unrelated questions.''"

definition fallback_prompt :: "string list \<Rightarrow> string \<Rightarrow> string" where
  "fallback_prompt history message =
     ''\<newline>'' @ fallback_system_prompt @ ''\<newline>\<newline>Conversation so far:\<newline>'' @
     join ''\<newline>'' (last_n 6 history) @ ''\<newline>Human: '' @ message @
     ''\<newline>Assistant:'' @ [CHR 0x22] @ ''\<newline>''"

text \<open>State \<open>NO_INTEREST\<close>: the classifier chooses the SQL agent or the document tool.\<close>

definition no_interest :: "env \<Rightarrow> string \<Rightarrow> agent \<Rightarrow> agent \<times> (exn + string)" where
  "no_interest env message a =
     (let a1 = record_call (LlmInvoke (decide_prompt message)) a in
      case decide_tool env message of
        Inl e \<Rightarrow> (a1, Inl e)
      | Inr tool \<Rightarrow>
          if tool = ''sql'' then (record_call (SqlQuery message) a1, query env message)
          else
            (let a2 = record_call (PdfAnswer message) a1 in
             case pdf_answer env message (conversation_history a)
                    (partial_lead_info (lead_tool a)) (state_value env NO_INTEREST) of
               Inl e \<Rightarrow> (a2, Inl e)
             | Inr rag_response \<Rightarrow>
                 if \<not> sublist ''Sorry, I can only answer questions'' rag_response
                 then (a2, Inr rag_response)
                 else
                   (let prompt = fallback_prompt (conversation_history a) message in
                    (record_call (LlmInvoke prompt) a2, llm_invoke env prompt))))"

text \<open>The reply to a message that looks like contact information.\<close>

definition need_fields :: "string list \<Rightarrow> string" where
  "need_fields missing =
     (if missing \<noteq> [] then
        (if length missing = 1 then ''Just need your '' @ missing ! 0 @ '' to get started.''
         else ''Just need your '' @ join '', '' missing @ '' to get started.'')
      else ''Thanks!'')"

text \<open>
  States \<open>INTEREST_DETECTED\<close> and \<open>COLLECTING_INFO\<close>: the two branches of the source
  differ in the state label given to the document tool and in the sentence \<open>ask\<close> that
  is appended to a document answer.
\<close>

definition collecting ::
  "env \<Rightarrow> string \<Rightarrow> LeadState \<Rightarrow> (string list \<Rightarrow> string) \<Rightarrow> agent \<Rightarrow> agent \<times> (exn + string)"
  where
  "collecting env message st ask a =
     (let a1 = record_call GetMissingFields a in
      case get_missing_fields env (lead_tool a) of
        Inl e \<Rightarrow> (a1, Inl e)
      | Inr missing \<Rightarrow>
          if is_contact_info message then (a1, Inr (need_fields missing))
          else
            (let a2 = record_call (PdfAnswer message) a1 in
             case pdf_answer env message (conversation_history a)
                    (partial_lead_info (lead_tool a)) (state_value env st) of
               Inl e \<Rightarrow> (a2, Inl e)
             | Inr answer \<Rightarrow>
                 (a2, Inr (if missing \<noteq> [] then answer @ ask missing else answer))))"

definition ask_interest :: "string list \<Rightarrow> string" where
  "ask_interest missing = ''\<newline>\<newline>Could you share your '' @ join '', '' missing @ ''?''"

definition ask_collecting :: "string list \<Rightarrow> string" where
  "ask_collecting missing =
     ''\<newline>\<newline>Just need your '' @ join '', '' missing @ '' to get started.''"

text \<open>State \<open>INFO_COMPLETE\<close>.\<close>

definition saved_text :: string where
  "saved_text =
     ''Great! I've saved your information.\<newline>Do you want to schedule a meeting with our team? (Yes/No)''"

definition trouble_text :: string where
  "trouble_text = ''Sorry, I had trouble saving your information. Would you mind trying again?''"

definition info_complete :: "env \<Rightarrow> agent \<Rightarrow> agent \<times> (exn + string)" where
  "info_complete env a =
     (let a1 = record_call CreateLead a in
      case create_lead env (lead_tool a) of
        Inl e \<Rightarrow> (a1, Inl e)
      | Inr (lead_id, lt) \<Rightarrow>
          (a1\<lparr>lead_tool := lt\<rparr>, Inr (if has_id lead_id then saved_text else trouble_text)))"

text \<open>State \<open>AWAITING_MEETING_CONFIRMATION\<close>.\<close>

definition affirmative :: "string list" where
  "affirmative =
     [''yes'', ''yeah'', ''y'', ''sure'', ''please'', ''schedule'', ''schedule meeting'',
      ''schedul'', ''scedul'', ''shedule'', ''sedul'']"

definition slots_text :: "string \<Rightarrow> string" where
  "slots_text shown =
     ''Here are the available meeting slots for today:\<newline>'' @ shown @
     ''\<newline>Please pick one.''"

definition no_slots_text :: string where
  "no_slots_text =
     ''Sorry, I couldn'' @ [CHR 0xE2, CHR 0x80, CHR 0x99] @
     ''t fetch available meeting slots right now.''"

definition no_problem_text :: string where
  "no_problem_text = ''No problem! Let me know if you have any other questions.''"

definition awaiting_confirmation :: "env \<Rightarrow> string \<Rightarrow> agent \<Rightarrow> agent \<times> (exn + string)" where
  "awaiting_confirmation env message a =
     (if lower (strip message) \<in> set affirmative then
        (let a1 = record_call GetSlots a in
         case get_slots env (meeting_tool a) of
           Inl e \<Rightarrow> (a1, Inl e)
         | Inr (slots, mt) \<Rightarrow>
             (let a2 = a1\<lparr>meeting_tool := mt\<rparr> in
              if slots \<noteq> [] then
                (let a3 = record_call (FormatSlots slots) a2 in
                 case format_slots env slots of
                   Inl e \<Rightarrow> (a3, Inl e)
                 | Inr shown \<Rightarrow>
                     (set_state WAITING_MEETING_SLOT_SELECTION a3, Inr (slots_text shown)))
              else (set_state NO_INTEREST a2, Inr no_slots_text)))
      else (set_state NO_INTEREST a, Inr no_problem_text))"

text \<open>State \<open>WAITING_MEETING_SLOT_SELECTION\<close>.\<close>

definition scheduled_text :: "string \<Rightarrow> string" where
  "scheduled_text slot =
     [CHR 0xE2, CHR 0x9C, CHR 0x85] @ '' Your meeting has been scheduled at '' @ slot @
     ''. Our team will contact you soon!''"

definition failed_text :: "string \<Rightarrow> string" where
  "failed_text slot =
     [CHR 0xE2, CHR 0x9D, CHR 0x8C] @
     '' Something went wrong while scheduling your meeting at '' @ slot @
     ''. Please try again.''"

definition invalid_time_text :: "string \<Rightarrow> string list \<Rightarrow> string" where
  "invalid_time_text message slots =
     [CHR 0xE2, CHR 0x9A, CHR 0xA0, CHR 0xEF, CHR 0xB8, CHR 0x8F] @ '' '' @ [CHR 0x27] @
     message @ [CHR 0x27] @ '' is not a valid time. Please choose from: '' @
     join '', '' slots"

definition slot_selection :: "env \<Rightarrow> string \<Rightarrow> agent \<Rightarrow> agent \<times> (exn + string)" where
  "slot_selection env message a =
     (let slot = normalize_time message;
          offered = available_slots (meeting_tool a);
          invalid = (a, Inr (invalid_time_text message offered))
      in
      case current_lead_id (lead_tool a) of
        None \<Rightarrow> invalid
      | Some lead \<Rightarrow>
          if slot \<in> set offered \<and> has_id (Some lead) then
            (let a1 = record_call (Schedule lead slot) a in
             case schedule env lead slot (meeting_tool a) of
               Inl e \<Rightarrow> (a1, Inl e)
             | Inr (success, mt) \<Rightarrow>
                 (a1\<lparr>lead_tool := (lead_tool a1)\<lparr>state := NO_INTEREST, current_lead_id := None\<rparr>,
                     meeting_tool := mt\<lparr>available_slots := []\<rparr>\<rparr>,
                  Inr (if success then scheduled_text slot else failed_text slot)))
          else invalid)"

text \<open>The \<open>if\<close>/\<open>elif\<close> chain on the state read after \<open>update_state\<close>.\<close>

fun handle :: "env \<Rightarrow> string \<Rightarrow> LeadState \<Rightarrow> agent \<Rightarrow> agent \<times> (exn + string)" where
  "handle env message NO_INTEREST a = no_interest env message a"
| "handle env message INTEREST_DETECTED a =
     collecting env message INTEREST_DETECTED ask_interest a"
| "handle env message COLLECTING_INFO a =
     collecting env message COLLECTING_INFO ask_collecting a"
| "handle env message INFO_COMPLETE a = info_complete env a"
| "handle env message AWAITING_MEETING_CONFIRMATION a = awaiting_confirmation env message a"
| "handle env message WAITING_MEETING_SLOT_SELECTION a = slot_selection env message a"

text \<open>
  The start of a call, once \<open>update_state\<close> has returned: the lead tool is as it left
  it, and the human turn is appended to the history.
\<close>

definition begin_turn :: "string \<Rightarrow> LeadTool \<Rightarrow> agent \<Rightarrow> agent" where
  "begin_turn message lt a =
     (record_call (UpdateState message) a)
       \<lparr>lead_tool := lt,
        conversation_history := conversation_history a @ [''Human: '' @ message]\<rparr>"

text \<open>
  The end of a call: the assistant turn is appended, the history is cut to its last 30
  entries, and the dictionary is built.
\<close>

definition end_turn :: "env \<Rightarrow> string \<Rightarrow> agent \<Rightarrow> agent \<times> result" where
  "end_turn env reply a =
     (let a' = a\<lparr>conversation_history :=
                  last_n 30 (conversation_history a @ [''Assistant: '' @ reply])\<rparr>
      in
      (a',
       \<lparr>response = reply,
        lead_info =
          (if partial_lead_info (lead_tool a') \<noteq> []
           then Some (partial_lead_info (lead_tool a')) else None),
        lead_state = state_value env (state (lead_tool a'))\<rparr>))"

text \<open>
  \<open>process\<close> returns the agent as the call leaves it and either the exception that
  escaped or the returned dictionary. The source has no \<open>try\<close> in \<open>process\<close>: an
  exception of a collaborator ends the call at once and leaves the assignments made
  before it in place.
\<close>

definition process :: "env \<Rightarrow> string \<Rightarrow> agent \<Rightarrow> agent \<times> (exn + result)" where
  "process env message a =
     (case update_state env message (lead_tool a) of
        Inl e \<Rightarrow> (record_call (UpdateState message) a, Inl e)
      | Inr lt \<Rightarrow>
          (case handle env message (state lt) (begin_turn message lt a) of
             (a', Inl e) \<Rightarrow> (a', Inl e)
           | (a', Inr reply) \<Rightarrow>
               (case end_turn env reply a' of (a'', r) \<Rightarrow> (a'', Inr r))))"

text \<open>
  A session: the agent starts with an empty history, and every call works on the agent
  the previous call left, whether that call returned or raised.
\<close>

definition new_agent :: "LeadTool \<Rightarrow> MeetingTool \<Rightarrow> agent" where
  "new_agent lt mt =
     \<lparr>lead_tool = lt, meeting_tool = mt, conversation_history = [], calls = []\<rparr>"

fun run :: "(env \<times> string) list \<Rightarrow> agent \<Rightarrow> agent" where
  "run [] a = a"
| "run ((env, message) # rest) a = run rest (fst (process env message a))"

section \<open>The specification's terms\<close>




text \<open>
  \<open>s\<close> contains \<open>p\<close> as a substring, letter case ignored.
\<close>

definition contains_ci :: "string \<Rightarrow> string \<Rightarrow> bool" where
  "contains_ci p s = sublist (lower p) (lower s)"


text \<open>
  No collaborator call that \<open>process\<close> makes itself raises, whatever its arguments.
\<close>

definition collaborators_return :: "env \<Rightarrow> bool" where
  "collaborators_return env =
     ((\<forall>p e. llm_invoke env p \<noteq> Inl e) \<and>
      (\<forall>m lt e. update_state env m lt \<noteq> Inl e) \<and>
      (\<forall>lt e. get_missing_fields env lt \<noteq> Inl e) \<and>
      (\<forall>lt e. create_lead env lt \<noteq> Inl e) \<and>
      (\<forall>mt e. get_slots env mt \<noteq> Inl e) \<and>
      (\<forall>slots e. format_slots env slots \<noteq> Inl e) \<and>
      (\<forall>lead slot mt e. schedule env lead slot mt \<noteq> Inl e) \<and>
      (\<forall>q h i s e. pdf_answer env q h i s \<noteq> Inl e) \<and>
      (\<forall>q e. fix_area env q \<noteq> Inl e))"


text \<open>
  Every call of a session returns.
\<close>

fun all_return :: "(env \<times> string) list \<Rightarrow> agent \<Rightarrow> bool" where
  "all_return [] a = True"
| "all_return ((env, message) # rest) a =
     (case process env message a of
        (a', Inr r) \<Rightarrow> all_return rest a'
      | (a', Inl e) \<Rightarrow> False)"

section \<open>Example collaborators and sessions\<close>

text \<open>
  Concrete collaborators for the scenarios of the specification: \<open>calm_env\<close> answers every
  call (the classifier says \<open>rag\<close>, lead creation fails with \<open>None\<close>, the slots are
  09:00 and 10:00, scheduling succeeds); the others change one collaborator each. The
  state labels are examples, the \<open>.value\<close> strings of the source being unknown.
\<close>

definition state_label :: "LeadState \<Rightarrow> string" where
  "state_label s =
     (case s of
        NO_INTEREST \<Rightarrow> ''no_interest''
      | INTEREST_DETECTED \<Rightarrow> ''interest_detected''
      | COLLECTING_INFO \<Rightarrow> ''collecting_info''
      | INFO_COMPLETE \<Rightarrow> ''info_complete''
      | AWAITING_MEETING_CONFIRMATION \<Rightarrow> ''awaiting_meeting_confirmation''
      | WAITING_MEETING_SLOT_SELECTION \<Rightarrow> ''waiting_meeting_slot_selection'')"

definition calm_env :: env where
  "calm_env =
     \<lparr>llm_invoke = (\<lambda>p. Inr ''rag''),
      update_state = (\<lambda>m lt. Inr lt),
      get_missing_fields = (\<lambda>lt. Inr [''phone'']),
      create_lead = (\<lambda>lt. Inr (None, lt)),
      get_slots = (\<lambda>mt. Inr ([''09:00'', ''10:00''], mt\<lparr>available_slots := [''09:00'', ''10:00'']\<rparr>)),
      format_slots = (\<lambda>slots. Inr (join ''\<newline>'' slots)),
      schedule = (\<lambda>lead slot mt. Inr (True, mt)),
      pdf_answer = (\<lambda>q h i s. Inr ''Emaar is a developer.''),
      fix_area = (\<lambda>q. Inr q),
      agent_executor = (\<lambda>q. Inr ''There are 3 studios.''),
      state_value = state_label\<rparr>"

definition down_env :: env where
  "down_env = calm_env\<lparr>llm_invoke := (\<lambda>p. Inl (Exception ''Connection error.''))\<rparr>"

definition sql_env :: env where
  "sql_env = calm_env\<lparr>llm_invoke := (\<lambda>p. Inr '' SQL\<newline>'')\<rparr>"




definition session :: "LeadState \<Rightarrow> string option \<Rightarrow> string list \<Rightarrow> agent" where
  "session s lead slots =
     new_agent \<lparr>state = s, partial_lead_info = [], current_lead_id = lead\<rparr>
       \<lparr>available_slots = slots\<rparr>"

section \<open>Text lemmas\<close>

lemma isspace_lower_char: "isspace (lower_char c) = isspace c"
  by (auto simp: lower_char_def isspace_def)

lemma lower_strip: "lower (strip s) = strip (lower s)"
proof -
  have comp: "isspace \<circ> lower_char = isspace"
    by (rule ext) (simp add: isspace_lower_char)
  show ?thesis
    by (simp add: lower_def strip_def rev_map dropWhile_map comp)
qed

lemma sublist_dropWhile_eq:
  assumes "p \<noteq> []" and "\<And>c. c \<in> set p \<Longrightarrow> \<not> Q c"
  shows "sublist p (dropWhile Q s) = sublist p s"
proof (induction s)
  case Nil
  show ?case by simp
next
  case (Cons c cs)
  show ?case
  proof (cases "Q c")
    case True
    have "\<not> prefix p (c # cs)"
    proof
      assume "prefix p (c # cs)"
      with assms(1) have "c \<in> set p" by (cases p) auto
      with assms(2) True show False by blast
    qed
    with True Cons show ?thesis by (simp add: sublist_Cons_right)
  next
    case False
    then show ?thesis by simp
  qed
qed

lemma sublist_strip:
  assumes "p \<noteq> []" and "\<And>c. c \<in> set p \<Longrightarrow> \<not> isspace c"
  shows "sublist p (strip s) = sublist p s"
proof -
  have "sublist p (strip s) = sublist (rev p) (dropWhile isspace (rev (dropWhile isspace s)))"
    by (simp add: strip_def sublist_rev_right)
  also have "\<dots> = sublist (rev p) (rev (dropWhile isspace s))"
    using assms by (intro sublist_dropWhile_eq) auto
  also have "\<dots> = sublist p (dropWhile isspace s)"
    by simp
  also have "\<dots> = sublist p s"
    using assms by (intro sublist_dropWhile_eq) auto
  finally show ?thesis .
qed

lemma sql_in_decision: "sublist ''sql'' (lower (strip raw)) = contains_ci ''sql'' raw"
proof -
  have "lower ''sql'' = ''sql''" by (simp add: lower_def lower_char_def)
  moreover have "sublist ''sql'' (strip (lower raw)) = sublist ''sql'' (lower raw)"
    by (rule sublist_strip) (auto simp: isspace_def)
  ultimately show ?thesis by (simp add: contains_ci_def lower_strip)
qed














lemma length_last_n: "length (last_n n xs) \<le> n"
  by (simp add: last_n_def)

section \<open>Contact-info detector\<close>

text \<open>
  Claim C1: for every message the contact-info detector returns true if and only if the
  message contains a run of 10 or more digits, an email-like token, or one of the phrases
  "name is", "i am", "i'm", "this is" (letter case ignored); in particular it is true for
  "my email is a@b.com" and for "name is John" and false for "I like blue".

  The code does not do this. With the doubled backslashes the two patterns look for
  literal backslashes, so neither an email address nor a phone number is detected: the
  detector is false for "my email is a@b.com" and for a message with a ten-digit number.
  Only the phrases work.
\<close>

theorem contact_info_patterns_miss:
  "is_contact_info ''my email is a@b.com'' = False
   \<and> is_contact_info ''call me on 0501234567'' = False
   \<and> is_contact_info ''name is John'' = True
   \<and> is_contact_info ''I like blue'' = False"
  by code_simp

section \<open>Time normalizer\<close>














section \<open>Intent classifier\<close>

text \<open>
  Claim C8: for every message, when the reasoning capability answers with the text
  \<open>raw\<close>, the intent classifier returns \<open>sql\<close> if and only if \<open>raw\<close> contains the
  substring "sql", letter case ignored, and \<open>rag\<close> otherwise.
\<close>

theorem decide_tool_sql_iff:
  assumes "llm_invoke env (decide_prompt message) = Inr raw"
  shows "decide_tool env message = Inr (if contains_ci ''sql'' raw then ''sql'' else ''rag'')
       \<and> (decide_tool env message = Inr ''sql'' \<longleftrightarrow> contains_ci ''sql'' raw)"
  using assms by (simp add: decide_tool_def sql_in_decision)

text \<open>
  An answer in capitals with surrounding whitespace gives \<open>sql\<close>; the answer "rag" gives \<open>rag\<close>.
\<close>

theorem decide_tool_sql_iff_witness:
  "llm_invoke sql_env (decide_prompt ''price of unit 12?'') = Inr '' SQL\<newline>''
   \<and> decide_tool sql_env ''price of unit 12?'' = Inr ''sql''
   \<and> llm_invoke calm_env (decide_prompt ''who is Emaar?'') = Inr ''rag''
   \<and> decide_tool calm_env ''who is Emaar?'' = Inr ''rag''"
proof -
  have h1: "llm_invoke sql_env (decide_prompt ''price of unit 12?'') = Inr '' SQL\<newline>''"
    by (simp add: sql_env_def)
  have h2: "llm_invoke calm_env (decide_prompt ''who is Emaar?'') = Inr ''rag''"
    by (simp add: calm_env_def)
  have c1: "contains_ci ''sql'' '' SQL\<newline>''" by code_simp
  have c2: "\<not> contains_ci ''sql'' ''rag''" by code_simp
  from decide_tool_sql_iff [OF h1] decide_tool_sql_iff [OF h2] h1 h2 c1 c2
  show ?thesis by simp
qed

section \<open>Conversation controller\<close>

text \<open>
  In the claims below, "in state \<open>s\<close>" is the state \<open>process\<close> branches on: the one
  \<open>update_state\<close> leaves, \<open>state lt\<close>.
\<close>

lemmas branch_defs = no_interest_def collecting_def info_complete_def awaiting_confirmation_def
  slot_selection_def record_call_def set_state_def

lemmas turn_defs = begin_turn_def end_turn_def record_call_def set_state_def Let_def

lemma process_in_state:
  assumes "update_state env message (lead_tool a) = Inr lt"
  shows "process env message a =
           (case handle env message (state lt) (begin_turn message lt a) of
              (a', Inl e) \<Rightarrow> (a', Inl e)
            | (a', Inr reply) \<Rightarrow> (case end_turn env reply a' of (a'', r) \<Rightarrow> (a'', Inr r)))"
  using assms by (simp add: process_def)

lemma session_simps:
  "lead_tool (session s lead slots) = \<lparr>state = s, partial_lead_info = [], current_lead_id = lead\<rparr>"
  "meeting_tool (session s lead slots) = \<lparr>available_slots = slots\<rparr>"
  "conversation_history (session s lead slots) = []"
  "calls (session s lead slots) = []"
  by (simp_all add: session_def new_agent_def)

lemma calm_update: "update_state calm_env m lt = Inr lt"
  by (simp add: calm_env_def)

lemma calm_env_returns: "collaborators_return calm_env"
  by (simp add: collaborators_return_def calm_env_def)

text \<open>
  What the branches do to the history, and when they return or raise.
\<close>

lemma handle_history:
  "conversation_history (fst (handle env message st a)) = conversation_history a"
  by (cases st) (auto simp: branch_defs Let_def split: sum.splits prod.splits option.splits)

lemma query_returns: "\<forall>q e. fix_area env q \<noteq> Inl e \<Longrightarrow> \<exists>s. query env question = Inr s"
  by (auto simp: query_def split: sum.splits)

lemma decide_returns: "\<forall>p e. llm_invoke env p \<noteq> Inl e \<Longrightarrow> \<exists>s. decide_tool env message = Inr s"
  by (auto simp: decide_tool_def Let_def split: sum.splits)

lemma handle_total:
  assumes "collaborators_return env"
  shows "\<exists>a' s. handle env message st a = (a', Inr s)"
proof (cases st)
  case NO_INTEREST
  from assms have llm: "\<forall>p e. llm_invoke env p \<noteq> Inl e" and fa: "\<forall>q e. fix_area env q \<noteq> Inl e"
    and pdf: "\<forall>q h i s e. pdf_answer env q h i s \<noteq> Inl e"
    by (simp_all add: collaborators_return_def)
  obtain tool where t: "decide_tool env message = Inr tool"
    using decide_returns [OF llm] by blast
  obtain s where s: "query env message = Inr s"
    using query_returns [OF fa] by blast
  have "\<exists>s. llm_invoke env (fallback_prompt (conversation_history a) message) = Inr s"
    using llm by (cases "llm_invoke env (fallback_prompt (conversation_history a) message)") auto
  then show ?thesis
    using NO_INTEREST t s pdf
    by (auto simp: no_interest_def Let_def split: sum.splits)
next
  case INTEREST_DETECTED
  with assms show ?thesis unfolding collaborators_return_def
    by (auto simp: collecting_def Let_def split: sum.splits)
next
  case COLLECTING_INFO
  with assms show ?thesis unfolding collaborators_return_def
    by (auto simp: collecting_def Let_def split: sum.splits)
next
  case INFO_COMPLETE
  with assms show ?thesis unfolding collaborators_return_def
    by (auto simp: info_complete_def Let_def split: sum.splits prod.splits)
next
  case AWAITING_MEETING_CONFIRMATION
  with assms show ?thesis unfolding collaborators_return_def
    by (auto simp: awaiting_confirmation_def Let_def split: sum.splits prod.splits)
next
  case WAITING_MEETING_SLOT_SELECTION
  with assms show ?thesis unfolding collaborators_return_def
    by (auto simp: slot_selection_def Let_def split: sum.splits prod.splits option.splits)
qed

lemma process_total:
  assumes "collaborators_return env"
  shows "\<exists>a' r. process env message a = (a', Inr r) \<and>
           lead_state r = state_value env (state (lead_tool a'))"
proof -
  obtain lt where u: "update_state env message (lead_tool a) = Inr lt"
    using assms unfolding collaborators_return_def by (metis sum.exhaust)
  obtain a3 s where h: "handle env message (state lt) (begin_turn message lt a) = (a3, Inr s)"
    using handle_total [OF assms] by blast
  show ?thesis
    by (simp add: process_def u h end_turn_def Let_def)
qed




subsection \<open>Meeting confirmation\<close>






subsection \<open>Slot selection\<close>



text \<open>
  Claim C9: in state \<open>WAITING_MEETING_SLOT_SELECTION\<close>, for every message whose
  normalized form is one of the available slots while the current lead id is \<open>None\<close>,
  no scheduling call is made: the response is the invalid-time re-prompt, the state
  remains \<open>WAITING_MEETING_SLOT_SELECTION\<close> and the available slots are unchanged.
\<close>

theorem slot_selection_without_lead:
  assumes "update_state env message (lead_tool a) = Inr lt"
    and "state lt = WAITING_MEETING_SLOT_SELECTION"
    and "normalize_time message \<in> set (available_slots (meeting_tool a))"
    and "current_lead_id lt = None"
  shows
    "\<exists>a' r. process env message a = (a', Inr r) \<and>
       calls a' = calls a @ [UpdateState message] \<and>
       (\<forall>lead slot. Schedule lead slot \<notin> set (drop (length (calls a)) (calls a'))) \<and>
       response r = invalid_time_text message (available_slots (meeting_tool a)) \<and>
       state (lead_tool a') = WAITING_MEETING_SLOT_SELECTION \<and>
       available_slots (meeting_tool a') = available_slots (meeting_tool a)"
  unfolding process_in_state [OF assms(1)] assms(2) handle.simps slot_selection_def
  using assms(2,3,4) by (auto simp: turn_defs)

text \<open>
  The message "9" with the slot 09:00 on offer and no lead id.
\<close>

theorem slot_selection_without_lead_witness:
  "normalize_time ''9'' \<in> set (available_slots (meeting_tool
       (session WAITING_MEETING_SLOT_SELECTION None [''09:00''])))
   \<and> current_lead_id (lead_tool (session WAITING_MEETING_SLOT_SELECTION None [''09:00''])) = None
   \<and> (\<exists>a' r. process calm_env ''9'' (session WAITING_MEETING_SLOT_SELECTION None [''09:00'']) =
        (a', Inr r) \<and>
      calls a' = [UpdateState ''9''] \<and>
      response r = invalid_time_text ''9'' [''09:00''] \<and>
      state (lead_tool a') = WAITING_MEETING_SLOT_SELECTION \<and>
      available_slots (meeting_tool a') = [''09:00''])"
proof -
  let ?s = "session WAITING_MEETING_SLOT_SELECTION None [''09:00'']"
  have st: "state (lead_tool ?s) = WAITING_MEETING_SLOT_SELECTION"
    by (simp add: session_simps)
  have n1: "normalize_time ''9'' = ''09:00''" by code_simp
  have i1: "normalize_time ''9'' \<in> set (available_slots (meeting_tool ?s))"
    unfolding n1 by (simp add: session_simps)
  have l: "current_lead_id (lead_tool ?s) = None" by (simp add: session_simps)
  from slot_selection_without_lead [OF calm_update st i1 l]
  have c: "\<exists>a' r. process calm_env ''9'' ?s = (a', Inr r) \<and>
      calls a' = [UpdateState ''9''] \<and>
      response r = invalid_time_text ''9'' [''09:00''] \<and>
      state (lead_tool a') = WAITING_MEETING_SLOT_SELECTION \<and>
      available_slots (meeting_tool a') = [''09:00'']"
    by (auto simp: session_simps)
  from i1 l c show ?thesis by (intro conjI)
qed

subsection \<open>Lead creation\<close>



subsection \<open>Conversation history\<close>

lemma process_history_returned:
  assumes "process env message a = (a', Inr r)"
  shows "conversation_history a' =
           last_n 30 (conversation_history a @ [''Human: '' @ message, ''Assistant: '' @ response r])"
proof -
  from assms obtain lt where u: "update_state env message (lead_tool a) = Inr lt"
    by (auto simp: process_def split: sum.splits)
  from assms u obtain a3 reply where
    h: "handle env message (state lt) (begin_turn message lt a) = (a3, Inr reply)"
    by (auto simp: process_def split: sum.splits prod.splits)
  have "conversation_history a3 = conversation_history (begin_turn message lt a)"
    using handle_history [of env message "state lt" "begin_turn message lt a"] h by simp
  then have "conversation_history a3 = conversation_history a @ [''Human: '' @ message]"
    by (simp add: begin_turn_def record_call_def)
  with assms u h show ?thesis
    by (auto simp: process_def end_turn_def Let_def)
qed

lemma length_history_returned:
  "process env message a = (a', Inr r) \<Longrightarrow> length (conversation_history a') \<le> 30"
  using process_history_returned [of env message a a' r] length_last_n by simp

lemma process_history_raised:
  assumes "process env message a = (a', Inl e)"
  shows "conversation_history a' = conversation_history a \<or>
         conversation_history a' = conversation_history a @ [''Human: '' @ message]"
proof (cases "update_state env message (lead_tool a)")
  case (Inl e')
  with assms show ?thesis by (auto simp: process_def record_call_def)
next
  case (Inr lt)
  with assms have h: "handle env message (state lt) (begin_turn message lt a) = (a', Inl e)"
    by (auto simp: process_def split: sum.splits prod.splits)
  have "conversation_history a' = conversation_history (begin_turn message lt a)"
    using handle_history [of env message "state lt" "begin_turn message lt a"] h by simp
  then show ?thesis by (simp add: begin_turn_def record_call_def)
qed

lemma run_all_return_bounded:
  "all_return steps a \<Longrightarrow> length (conversation_history a) \<le> 30 \<Longrightarrow>
     length (conversation_history (run steps a)) \<le> 30"
proof (induction steps arbitrary: a)
  case Nil
  then show ?case by simp
next
  case (Cons step steps)
  obtain env message where st: "step = (env, message)" by (cases step)
  from Cons.prems(1) st obtain a' r where p: "process env message a = (a', Inr r)"
    and rest: "all_return steps a'"
    by (auto split: prod.splits sum.splits)
  have "length (conversation_history a') \<le> 30"
    using process_history_returned [OF p] length_last_n by simp
  with Cons.IH [OF rest] p st show ?case by simp
qed

text \<open>
  Claim C6, as the specification states it: after every call of \<open>process\<close> the
  conversation history has at most 30 entries. A call in which a collaborator raises
  has appended the human turn and ends before the assistant turn and the truncation:
  after fifteen answered calls and one call with the language model out of reach the
  history has 31 entries.
\<close>

theorem history_bound_counterexample:
  "length (conversation_history
     (run (replicate 15 (calm_env, ''hi'') @ [(down_env, ''hi'')]) (session NO_INTEREST None [])))
   = 31
   \<and> \<not> length (conversation_history
     (run (replicate 15 (calm_env, ''hi'') @ [(down_env, ''hi'')]) (session NO_INTEREST None [])))
     \<le> 30"
  by code_simp

text \<open>
  Claim C6, amended: every call of \<open>process\<close> that returns appends the human turn and
  exactly one assistant turn and then keeps the last 30 entries, so after it the history
  has at most 30 entries, the most recent turns in order; this holds along every session
  whose calls all return. A call that raises leaves the history as it was or with the
  human turn appended, and does not truncate it.
\<close>

theorem history_after_process:
  "(process env message a = (a', Inr r) \<longrightarrow>
      conversation_history a' =
        last_n 30 (conversation_history a @
          [''Human: '' @ message, ''Assistant: '' @ response r]) \<and>
      length (conversation_history a') \<le> 30)
   \<and> (process env message a = (a', Inl e) \<longrightarrow>
      conversation_history a' = conversation_history a \<or>
      conversation_history a' = conversation_history a @ [''Human: '' @ message])
   \<and> (all_return steps a \<and> length (conversation_history a) \<le> 30 \<longrightarrow>
      length (conversation_history (run steps a)) \<le> 30)"
  using process_history_returned [of env message a a' r]
    length_history_returned [of env message a a' r]
    process_history_raised [of env message a a' e]
    run_all_return_bounded [of steps a]
  by (intro conjI impI) simp_all

text \<open>
  A call that returns, a call that raises, and a session of two calls.
\<close>

theorem history_after_process_witness:
  "(\<exists>a' r. process calm_env ''hello'' (session NO_INTEREST None []) = (a', Inr r) \<and>
      conversation_history a' = [''Human: hello'', ''Assistant: Emaar is a developer.''])
   \<and> (\<exists>a' e. process down_env ''hello'' (session NO_INTEREST None []) = (a', Inl e) \<and>
      conversation_history a' = [''Human: hello''])
   \<and> all_return [(calm_env, ''hello''), (calm_env, ''hi'')] (session NO_INTEREST None [])
   \<and> length (conversation_history
        (run [(calm_env, ''hello''), (calm_env, ''hi'')] (session NO_INTEREST None []))) \<le> 30"
proof -
  note t = history_after_process
  obtain a' r where p: "process calm_env ''hello'' (session NO_INTEREST None []) = (a', Inr r)"
    using process_total [OF calm_env_returns] by blast
  have "response (projr (snd (process calm_env ''hello'' (session NO_INTEREST None [])))) =
      ''Emaar is a developer.''"
    by code_simp
  with p have rr: "response r = ''Emaar is a developer.''" by simp
  from t [where env = calm_env and message = "''hello''" and a = "session NO_INTEREST None []"
      and a' = a' and r = r, THEN conjunct1, THEN mp, OF p]
  have c1: "conversation_history a' = [''Human: hello'', ''Assistant: Emaar is a developer.'']"
    by (simp add: rr session_simps last_n_def)
  have h2: "process down_env ''hello'' (session NO_INTEREST None []) =
        (fst (process down_env ''hello'' (session NO_INTEREST None [])),
         Inl (Exception ''Connection error.''))"
    by code_simp
  have "conversation_history (fst (process down_env ''hello'' (session NO_INTEREST None []))) \<noteq> []"
    by code_simp
  with t [where env = down_env and message = "''hello''" and a = "session NO_INTEREST None []"
      and e = "Exception ''Connection error.''", THEN conjunct2, THEN conjunct1, THEN mp, OF h2]
  have c2: "conversation_history (fst (process down_env ''hello'' (session NO_INTEREST None []))) =
      [''Human: hello'']"
    by (simp add: session_simps)
  have h3: "all_return [(calm_env, ''hello''), (calm_env, ''hi'')] (session NO_INTEREST None [])"
    by code_simp
  have h4: "length (conversation_history (session NO_INTEREST None [])) \<le> 30"
    by (simp add: session_simps)
  from t [where a = "session NO_INTEREST None []"
      and steps = "[(calm_env, ''hello''), (calm_env, ''hi'')]",
      THEN conjunct2, THEN conjunct2, THEN mp, OF conjI [OF h3 h4]]
  have c3: "length (conversation_history
        (run [(calm_env, ''hello''), (calm_env, ''hi'')] (session NO_INTEREST None []))) \<le> 30" .
  from p c1 h2 c2 h3 c3 show ?thesis by blast
qed

subsection \<open>Exceptions\<close>




end
